theory Spec2Isabelle
  imports Main
begin

section \<open>Checkpoint utilities of onnxblock: \<^verbatim>\<open>checkpoint_utils.py\<close>\<close>

text \<open>
  The module wraps two native bindings of the training runtime,
  \<^verbatim>\<open>_internal_save_checkpoint\<close> and \<^verbatim>\<open>_internal_load_checkpoint\<close>.
  The Python layer is embedded here; the two bindings and the
  \<^verbatim>\<open>SerializeToString\<close> method of the parameter objects belong to other
  libraries and are parameters of the embedding.
\<close>

subsection \<open>Python values and exceptions\<close>

text \<open>
  The Python values the two functions can be handed. \<open>PyObj\<close> is an instance of a
  class that has a \<^verbatim>\<open>SerializeToString\<close> method (a protobuf message); it is neither
  iterable nor \<^verbatim>\<open>None\<close>. Tuples and lists are the iterables; to the statements
  of this module any other iterable is the sequence of its items, as a tuple is.
\<close>

datatype 'o pyobj =
    PyNone
  | PyInt int
  | PyTuple "'o pyobj list"
  | PyList "'o pyobj list"
  | PyObj 'o

text \<open>
  Exceptions. \<open>RuntimeError\<close> carries its message. \<open>TypeError\<close>, \<open>ValueError\<close> and
  \<open>AttributeError\<close> are the ones the interpreter raises for the statements of this
  module; \<open>OtherError\<close> is any other exception, with a payload the foreign code
  chooses. A binding may raise any of them.
\<close>

datatype 'x py_exn =
    RuntimeError string
  | TypeError
  | ValueError
  | AttributeError
  | OtherError 'x

type_synonym bytes = "char list"

subsection \<open>The interpreter's part: iteration, unpacking, method call\<close>

text \<open>\<^verbatim>\<open>iter(v)\<close> run to its end: the items of a tuple or a list, TypeError otherwise.\<close>

fun py_iter :: "'o pyobj \<Rightarrow> 'x py_exn + 'o pyobj list" where
  "py_iter (PyTuple xs) = Inr xs"
| "py_iter (PyList xs) = Inr xs"
| "py_iter PyNone = Inl TypeError"
| "py_iter (PyInt n) = Inl TypeError"
| "py_iter (PyObj m) = Inl TypeError"

text \<open>
  \<^verbatim>\<open>a, b = v\<close>: TypeError when \<open>v\<close> is not iterable, ValueError when it does not
  yield exactly two items.
\<close>

definition unpack2 :: "'o pyobj \<Rightarrow> 'x py_exn + ('o pyobj \<times> 'o pyobj)" where
  "unpack2 v =
     (case py_iter v of
        Inl e \<Rightarrow> Inl e
      | Inr items \<Rightarrow>
          (case items of
             [a, b] \<Rightarrow> Inr (a, b)
           | _ \<Rightarrow> Inl ValueError))"

text \<open>
  \<^verbatim>\<open>param.SerializeToString()\<close>: the method of the object, which returns a byte
  string or raises; AttributeError on a value that has no such method.
\<close>

fun SerializeToString :: "('o \<Rightarrow> 'x py_exn + bytes) \<Rightarrow> 'o pyobj \<Rightarrow> 'x py_exn + bytes" where
  "SerializeToString ser (PyObj m) = ser m"
| "SerializeToString ser PyNone = Inl AttributeError"
| "SerializeToString ser (PyInt n) = Inl AttributeError"
| "SerializeToString ser (PyTuple xs) = Inl AttributeError"
| "SerializeToString ser (PyList xs) = Inl AttributeError"

text \<open>
  The body of the comprehension \<^verbatim>\<open>[param.SerializeToString() for param in ps]\<close> over
  the items already drawn: left to right, stopping at the first exception.
\<close>

fun serialize_items :: "('o \<Rightarrow> 'x py_exn + bytes) \<Rightarrow> 'o pyobj list \<Rightarrow> 'x py_exn + bytes list" where
  "serialize_items ser [] = Inr []"
| "serialize_items ser (param # ps) =
     (case SerializeToString ser param of
        Inl e \<Rightarrow> Inl e
      | Inr b \<Rightarrow>
          (case serialize_items ser ps of
             Inl e \<Rightarrow> Inl e
           | Inr bs \<Rightarrow> Inr (b # bs)))"

text \<open>The whole comprehension: iterate the value, then serialize each item.\<close>

definition serialize_params :: "('o \<Rightarrow> 'x py_exn + bytes) \<Rightarrow> 'o pyobj \<Rightarrow> 'x py_exn + bytes list" where
  "serialize_params ser params =
     (case py_iter params of
        Inl e \<Rightarrow> Inl e
      | Inr items \<Rightarrow> serialize_items ser items)"

subsection \<open>State and the native bindings\<close>

text \<open>A call that reached the native layer, with its arguments in the order passed.\<close>

datatype 'p native_call =
    Native_save "bytes list" "bytes list" 'p
  | Native_load 'p

text \<open>
  The state a call runs in: the Python objects by reference (\<open>objects\<close>), the state of
  the native runtime and of the file system behind it (\<open>world\<close>), and the trace of the
  native calls made so far (\<open>calls\<close>).
\<close>

record ('h, 'w, 'p) state =
  objects :: "nat \<Rightarrow> 'h option"
  world :: 'w
  calls :: "'p native_call list"

text \<open>
  A binding receives its arguments and the world, and returns the new world with either
  the exception it raised or its result. It receives byte strings and the path only, so
  it has no reference into \<open>objects\<close>.
\<close>

type_synonym ('p, 'w, 'x, 'r) save_binding =
  "bytes list \<Rightarrow> bytes list \<Rightarrow> 'p \<Rightarrow> 'w \<Rightarrow> ('x py_exn + 'r) \<times> 'w"

type_synonym ('p, 'w, 'x, 'c) load_binding =
  "'p \<Rightarrow> 'w \<Rightarrow> ('x py_exn + 'c) \<times> 'w"

definition call_native_save ::
  "('p, 'w, 'x, 'r) save_binding \<Rightarrow> bytes list \<Rightarrow> bytes list \<Rightarrow> 'p \<Rightarrow> ('h, 'w, 'p) state
     \<Rightarrow> ('x py_exn + 'r) \<times> ('h, 'w, 'p) state" where
  "call_native_save internal_save_checkpoint ts ns path s =
     (case internal_save_checkpoint ts ns path (world s) of
        (r, w') \<Rightarrow> (r, s\<lparr>world := w', calls := calls s @ [Native_save ts ns path]\<rparr>))"

definition call_native_load ::
  "('p, 'w, 'x, 'c) load_binding \<Rightarrow> 'p \<Rightarrow> ('h, 'w, 'p) state
     \<Rightarrow> ('x py_exn + 'c) \<times> ('h, 'w, 'p) state" where
  "call_native_load internal_load_checkpoint path s =
     (case internal_load_checkpoint path (world s) of
        (r, w') \<Rightarrow> (r, s\<lparr>world := w', calls := calls s @ [Native_load path]\<rparr>))"

subsection \<open>The two functions of the module\<close>

text \<open>
  \<^verbatim>\<open>save_checkpoint(parameters, path_to_checkpoint)\<close>. The function has no
  \<^verbatim>\<open>return\<close> statement: when the native call returns, its result is dropped and the
  value of the call is \<^verbatim>\<open>None\<close>.
\<close>

definition save_checkpoint ::
  "('o \<Rightarrow> 'x py_exn + bytes) \<Rightarrow> ('p, 'w, 'x, 'r) save_binding \<Rightarrow> 'o pyobj \<Rightarrow> 'p
     \<Rightarrow> ('h, 'w, 'p) state \<Rightarrow> ('x py_exn + 'o pyobj) \<times> ('h, 'w, 'p) state" where
  "save_checkpoint ser internal_save_checkpoint parameters path_to_checkpoint s =
     (if parameters = PyNone
      then (Inl (RuntimeError ''No checkpoint parameters provided.''), s)
      else
        (case unpack2 parameters of
           Inl e \<Rightarrow> (Inl e, s)
         | Inr (trainable_params, non_trainable_params) \<Rightarrow>
             (case serialize_params ser trainable_params of
                Inl e \<Rightarrow> (Inl e, s)
              | Inr trainable_bytes \<Rightarrow>
                  (case serialize_params ser non_trainable_params of
                     Inl e \<Rightarrow> (Inl e, s)
                   | Inr non_trainable_bytes \<Rightarrow>
                       (case call_native_save internal_save_checkpoint
                               trainable_bytes non_trainable_bytes path_to_checkpoint s of
                          (Inl e, s') \<Rightarrow> (Inl e, s')
                        | (Inr r, s') \<Rightarrow> (Inr PyNone, s'))))))"

text \<open>
  \<^verbatim>\<open>load_checkpoint(model, path_to_checkpoint)\<close>. \<open>model\<close> is the reference of the
  model object. The result of the native call is bound to the local
  \<^verbatim>\<open>parameters\<close> and the function ends there.
\<close>

definition load_checkpoint ::
  "('p, 'w, 'x, 'o) load_binding \<Rightarrow> nat \<Rightarrow> 'p
     \<Rightarrow> ('h, 'w, 'p) state \<Rightarrow> ('x py_exn + 'o pyobj) \<times> ('h, 'w, 'p) state" where
  "load_checkpoint internal_load_checkpoint model path_to_checkpoint s =
     (case call_native_load internal_load_checkpoint path_to_checkpoint s of
        (Inl e, s') \<Rightarrow> (Inl e, s')
      | (Inr parameters, s') \<Rightarrow> (Inr PyNone, s'))"

subsection \<open>Concrete bindings for the examples\<close>

text \<open>
  Stand-ins for the foreign code, used where a property is run on a concrete input: a
  message is its own wire form and an empty message does not serialize; the world is a
  list of the checkpoints written, newest first; saving to the empty path fails and
  loading a path that was never written fails.
\<close>

definition example_ser :: "string \<Rightarrow> string py_exn + bytes" where
  "example_ser m = (if m = [] then Inl (OtherError ''message is not initialized'') else Inr m)"

definition example_save ::
  "(string, (string \<times> bytes list \<times> bytes list) list, string, unit) save_binding" where
  "example_save ts ns path w =
     (if path = [] then (Inl (OtherError ''cannot write the checkpoint''), w)
      else (Inr (), (path, ts, ns) # w))"

definition example_load ::
  "(string, (string \<times> bytes list \<times> bytes list) list, string, bytes list \<times> bytes list) load_binding" where
  "example_load path w =
     (case map_of w path of
        None \<Rightarrow> (Inl (OtherError ''no checkpoint at this path''), w)
      | Some c \<Rightarrow> (Inr c, w))"

definition example_state :: "(string, (string \<times> bytes list \<times> bytes list) list, string) state" where
  "example_state = \<lparr>objects = [0 \<mapsto> ''model''], world = [(''old'', [''w''], [])], calls = []\<rparr>"

section \<open>Properties\<close>

subsection \<open>Serializing a list of parameters\<close>

lemma serialize_items_of_messages:
  "map ser ms = map Inr bs \<Longrightarrow> serialize_items ser (map PyObj ms) = Inr bs"
  by (induction ms arbitrary: bs) auto

lemma serialize_items_nth:
  "serialize_items ser xs = Inr bs \<Longrightarrow>
     length bs = length xs \<and> (\<forall>i<length xs. SerializeToString ser (xs ! i) = Inr (bs ! i))"
proof (induction xs arbitrary: bs)
  case Nil
  then show ?case by simp
next
  case (Cons x xs)
  from Cons.prems obtain b bs' where
    b: "SerializeToString ser x = Inr b" and bs': "serialize_items ser xs = Inr bs'" and
    eq: "bs = b # bs'"
    by (auto split: sum.splits)
  from Cons.IH [OF bs'] b eq show ?case
    by (auto simp: nth_Cons split: nat.splits)
qed

lemma serialize_items_total:
  "\<forall>x\<in>set xs. \<exists>b. SerializeToString ser x = Inr b \<Longrightarrow> \<exists>bs. serialize_items ser xs = Inr bs"
  by (induction xs) auto

subsection \<open>The guard on missing parameters\<close>

text \<open>
  C1. For every path, \<open>save_checkpoint\<close> called with \<^verbatim>\<open>parameters=None\<close> raises
  RuntimeError with the message "No checkpoint parameters provided." and leaves the
  state as it was: the world is untouched and the trace of native calls has not grown,
  whatever the serializer and the native binding are.
\<close>

theorem save_checkpoint_None_raises:
  "save_checkpoint ser internal_save_checkpoint PyNone path s =
     (Inl (RuntimeError ''No checkpoint parameters provided.''), s)
   \<and> calls (snd (save_checkpoint ser internal_save_checkpoint PyNone path s)) = calls s"
  by (simp add: save_checkpoint_def)

subsection \<open>What reaches the native save call\<close>

text \<open>
  C2. Let \<open>parameters\<close> unpack into two values that iterate to the messages \<open>ts\<close>
  (trainable) and \<open>ns\<close> (non-trainable), each of which \<^verbatim>\<open>SerializeToString\<close> turns
  into a byte string (\<open>tbs\<close> and \<open>nbs\<close>, element by element). Then \<open>save_checkpoint\<close>
  makes exactly one native save call, with the arguments \<open>tbs\<close>, \<open>nbs\<close> and the path in
  this order, in the world it was called in; the world afterwards is the one the binding
  leaves.
\<close>

theorem save_checkpoint_passes_serialized:
  fixes ser :: "'o \<Rightarrow> 'x py_exn + bytes"
  assumes "(unpack2 parameters :: 'x py_exn + 'o pyobj \<times> 'o pyobj) = Inr (tp, ntp)"
    and "(py_iter tp :: 'x py_exn + 'o pyobj list) = Inr (map PyObj ts)"
    and "(py_iter ntp :: 'x py_exn + 'o pyobj list) = Inr (map PyObj ns)"
    and "map ser ts = map Inr tbs"
    and "map ser ns = map Inr nbs"
  shows "save_checkpoint ser internal_save_checkpoint parameters path s =
     (case internal_save_checkpoint tbs nbs path (world s) of
        (r, w') \<Rightarrow>
          (case r of Inl e \<Rightarrow> Inl e | Inr v \<Rightarrow> Inr PyNone,
           s\<lparr>world := w', calls := calls s @ [Native_save tbs nbs path]\<rparr>))"
proof -
  from assms(1) have "parameters \<noteq> PyNone"
    by (auto simp: unpack2_def)
  moreover have "serialize_params ser tp = Inr tbs"
    using assms(2,4) by (simp add: serialize_params_def serialize_items_of_messages)
  moreover have "serialize_params ser ntp = Inr nbs"
    using assms(3,5) by (simp add: serialize_params_def serialize_items_of_messages)
  ultimately show ?thesis
    using assms(1)
    by (simp add: save_checkpoint_def call_native_save_def split: prod.splits sum.splits)
qed

theorem save_checkpoint_passes_serialized_witness:
  "save_checkpoint example_ser example_save
     (PyTuple [PyList [PyObj ''w1'', PyObj ''w2''], PyList [PyObj ''b'']]) ''ckpt'' example_state =
   (Inr PyNone,
    \<lparr>objects = [0 \<mapsto> ''model''],
     world = [(''ckpt'', [''w1'', ''w2''], [''b'']), (''old'', [''w''], [])],
     calls = [Native_save [''w1'', ''w2''] [''b''] ''ckpt'']\<rparr>)"
  using save_checkpoint_passes_serialized
    [of "PyTuple [PyList [PyObj ''w1'', PyObj ''w2''], PyList [PyObj ''b'']]"
        "PyList [PyObj ''w1'', PyObj ''w2'']" "PyList [PyObj ''b'']"
        "[''w1'', ''w2'']" "[''b'']" example_ser "[''w1'', ''w2'']" "[''b'']"
        example_save "''ckpt''" example_state]
  by (simp add: unpack2_def example_ser_def example_save_def example_state_def)

text \<open>
  C8. The lists handed to the native call keep length and order. Let \<open>parameters\<close> unpack
  into two values with the items \<open>ts\<close> and \<open>ns\<close>, every one of which
  \<^verbatim>\<open>SerializeToString\<close> turns into a byte string. Then \<open>save_checkpoint\<close> makes the
  native save call, and the two lists in that call, \<open>tbs\<close> and \<open>nbs\<close>, are such that
  \<open>tbs\<close> has one element for each item of \<open>ts\<close>, the element at index \<open>i\<close> being the
  serialization of the item at index \<open>i\<close>; likewise for \<open>nbs\<close> and \<open>ns\<close>.
\<close>

theorem save_checkpoint_hands_over_in_order:
  fixes ser :: "'o \<Rightarrow> 'x py_exn + bytes"
  assumes "(unpack2 parameters :: 'x py_exn + 'o pyobj \<times> 'o pyobj) = Inr (tp, ntp)"
    and "(py_iter tp :: 'x py_exn + 'o pyobj list) = Inr ts"
    and "(py_iter ntp :: 'x py_exn + 'o pyobj list) = Inr ns"
    and "\<forall>x\<in>set ts. \<exists>b. SerializeToString ser x = Inr b"
    and "\<forall>x\<in>set ns. \<exists>b. SerializeToString ser x = Inr b"
  shows "\<exists>tbs nbs.
       calls (snd (save_checkpoint ser internal_save_checkpoint parameters path s)) =
         calls s @ [Native_save tbs nbs path]
     \<and> length tbs = length ts
     \<and> (\<forall>i<length ts. SerializeToString ser (ts ! i) = Inr (tbs ! i))
     \<and> length nbs = length ns
     \<and> (\<forall>i<length ns. SerializeToString ser (ns ! i) = Inr (nbs ! i))"
proof -
  from assms(1) have nn: "parameters \<noteq> PyNone"
    by (auto simp: unpack2_def)
  from serialize_items_total [OF assms(4)] obtain tbs where
    tbs: "serialize_items ser ts = Inr tbs" by blast
  from serialize_items_total [OF assms(5)] obtain nbs where
    nbs: "serialize_items ser ns = Inr nbs" by blast
  have "calls (snd (save_checkpoint ser internal_save_checkpoint parameters path s)) =
          calls s @ [Native_save tbs nbs path]"
    using nn assms(1,2,3) tbs nbs
    by (auto simp: save_checkpoint_def serialize_params_def call_native_save_def
        split: sum.splits prod.splits)
  with serialize_items_nth [OF tbs] serialize_items_nth [OF nbs] show ?thesis
    by blast
qed

theorem save_checkpoint_hands_over_in_order_witness:
  "\<exists>tbs nbs.
       calls (snd (save_checkpoint example_ser example_save
                     (PyTuple [PyList [PyObj ''w1'', PyObj ''w2''], PyList [PyObj ''b'']])
                     ''ckpt'' example_state)) =
         calls example_state @ [Native_save tbs nbs ''ckpt'']
     \<and> length tbs = length [PyObj ''w1'', PyObj ''w2'' :: string pyobj]
     \<and> (\<forall>i<length [PyObj ''w1'', PyObj ''w2'' :: string pyobj].
           SerializeToString example_ser ([PyObj ''w1'', PyObj ''w2''] ! i) = Inr (tbs ! i))
     \<and> length nbs = length [PyObj ''b'' :: string pyobj]
     \<and> (\<forall>i<length [PyObj ''b'' :: string pyobj].
           SerializeToString example_ser ([PyObj ''b''] ! i) = Inr (nbs ! i))"
  by (rule save_checkpoint_hands_over_in_order
        [where tp = "PyList [PyObj ''w1'', PyObj ''w2'']" and ntp = "PyList [PyObj ''b'']"])
     (simp_all add: unpack2_def example_ser_def)

subsection \<open>Where failures come from\<close>




text \<open>
  C6. When \<open>save_checkpoint\<close> succeeds, the value it returns is \<^verbatim>\<open>None\<close>; it
  succeeds only on parameters other than \<^verbatim>\<open>None\<close>.
\<close>

theorem save_checkpoint_returns_None:
  assumes "fst (save_checkpoint ser internal_save_checkpoint parameters path s) = Inr v"
  shows "v = PyNone \<and> parameters \<noteq> PyNone"
  using assms
  by (auto simp: save_checkpoint_def split: if_splits sum.splits prod.splits)

theorem save_checkpoint_returns_None_witness:
  "fst (save_checkpoint example_ser example_save
      (PyTuple [PyList [PyObj ''w1''], PyList []]) ''ckpt'' example_state) = Inr PyNone
   \<and> PyTuple [PyList [PyObj ''w1''], PyList []] \<noteq> (PyNone :: string pyobj)"
proof -
  have ok: "fst (save_checkpoint example_ser example_save
      (PyTuple [PyList [PyObj ''w1''], PyList []]) ''ckpt'' example_state) = Inr PyNone"
    by (simp add: save_checkpoint_def unpack2_def serialize_params_def call_native_save_def
        example_ser_def example_save_def)
  from save_checkpoint_returns_None
         [where ser = example_ser and internal_save_checkpoint = example_save
            and path = "''ckpt''" and s = example_state, OF ok] ok
  show ?thesis by simp
qed

subsection \<open>Loading\<close>

text \<open>
  C3. \<open>load_checkpoint\<close> leaves every Python object as it was, the model among them,
  and drops what the native call returned: replacing the returned checkpoint by any other
  value changes neither the outcome nor the state of \<open>load_checkpoint\<close>.
\<close>

theorem load_checkpoint_discards_result:
  "objects (snd (load_checkpoint internal_load_checkpoint model path s)) = objects s
   \<and> load_checkpoint
       (\<lambda>p w. case internal_load_checkpoint p w of (r, w') \<Rightarrow> (map_sum id f r, w'))
       model path s =
     load_checkpoint internal_load_checkpoint model path s"
  by (simp add: load_checkpoint_def call_native_load_def split: prod.splits sum.splits)

text \<open>
  C5. When the native load call raises \<open>e\<close>, \<open>load_checkpoint\<close> raises the same \<open>e\<close>.
  The native call has been made once, and the world is the one the binding left.
\<close>

theorem load_checkpoint_propagates:
  assumes "fst (internal_load_checkpoint path (world s)) = Inl e"
  shows "load_checkpoint internal_load_checkpoint model path s =
     (Inl e, s\<lparr>world := snd (internal_load_checkpoint path (world s)),
               calls := calls s @ [Native_load path]\<rparr>)"
  using assms
  by (cases "internal_load_checkpoint path (world s)")
     (simp add: load_checkpoint_def call_native_load_def)

theorem load_checkpoint_propagates_witness:
  "fst (example_load ''new'' (world example_state)) = Inl (OtherError ''no checkpoint at this path'')
   \<and> load_checkpoint example_load 0 ''new'' example_state =
     (Inl (OtherError ''no checkpoint at this path''),
      \<lparr>objects = [0 \<mapsto> ''model''], world = [(''old'', [''w''], [])],
       calls = [Native_load ''new'']\<rparr>)"
proof -
  have h: "fst (example_load ''new'' (world example_state)) =
      Inl (OtherError ''no checkpoint at this path'')"
    by (simp add: example_load_def example_state_def)
  from load_checkpoint_propagates
         [where internal_load_checkpoint = example_load and path = "''new''"
            and s = example_state and model = 0, OF h] h
  show ?thesis
    by (simp add: example_load_def example_state_def)
qed

text \<open>
  C7. When the native load call succeeds with a checkpoint object, \<open>load_checkpoint\<close>
  returns \<^verbatim>\<open>None\<close>, not that object.
\<close>

theorem load_checkpoint_returns_None:
  assumes "fst (internal_load_checkpoint path (world s)) = Inr checkpoint"
  shows "fst (load_checkpoint internal_load_checkpoint model path s) = Inr PyNone
       \<and> fst (load_checkpoint internal_load_checkpoint model path s) \<noteq> Inr (PyObj checkpoint)"
  using assms
  by (cases "internal_load_checkpoint path (world s)")
     (simp add: load_checkpoint_def call_native_load_def)

theorem load_checkpoint_returns_None_witness:
  "fst (example_load ''old'' (world example_state)) = Inr ([''w''], [])
   \<and> fst (load_checkpoint example_load 0 ''old'' example_state) = Inr PyNone"
proof -
  have h: "fst (example_load ''old'' (world example_state)) = Inr ([''w''], [])"
    by (simp add: example_load_def example_state_def)
  from load_checkpoint_returns_None
         [where internal_load_checkpoint = example_load and path = "''old''"
            and s = example_state and model = 0, OF h] h
  show ?thesis by simp
qed

text \<open>
  C9. Two runs of \<open>load_checkpoint\<close> on the same path, in states that agree on the
  world and on the trace but hold different Python objects, with different model
  references: both make the same single native call, both return the same outcome, and
  both leave the same world.
\<close>

theorem load_checkpoint_model_independent:
  assumes "world s = world s'" and "calls s = calls s'"
  shows "fst (load_checkpoint internal_load_checkpoint model path s) =
           fst (load_checkpoint internal_load_checkpoint model' path s')
       \<and> world (snd (load_checkpoint internal_load_checkpoint model path s)) =
           world (snd (load_checkpoint internal_load_checkpoint model' path s'))
       \<and> calls (snd (load_checkpoint internal_load_checkpoint model path s)) =
           calls (snd (load_checkpoint internal_load_checkpoint model' path s'))
       \<and> calls (snd (load_checkpoint internal_load_checkpoint model path s)) =
           calls s @ [Native_load path]"
  using assms
  by (simp add: load_checkpoint_def call_native_load_def split: prod.splits sum.splits)

theorem load_checkpoint_model_independent_witness:
  "fst (load_checkpoint example_load 0 ''old'' example_state) =
     fst (load_checkpoint example_load 1 ''old''
            (example_state\<lparr>objects := [1 \<mapsto> ''another model'']\<rparr>))
   \<and> calls (snd (load_checkpoint example_load 0 ''old'' example_state)) =
     calls (snd (load_checkpoint example_load 1 ''old''
                   (example_state\<lparr>objects := [1 \<mapsto> ''another model'']\<rparr>)))
   \<and> calls (snd (load_checkpoint example_load 0 ''old'' example_state)) =
     calls example_state @ [Native_load ''old'']"
proof -
  have w: "world example_state = world (example_state\<lparr>objects := [1 \<mapsto> ''another model'']\<rparr>)"
    and c: "calls example_state = calls (example_state\<lparr>objects := [1 \<mapsto> ''another model'']\<rparr>)"
    by simp_all
  from load_checkpoint_model_independent
         [where internal_load_checkpoint = example_load and path = "''old''"
            and model = 0 and model' = 1, OF w c]
  show ?thesis by blast
qed

end
